theory Spec2Isabelle
  imports Main
begin

section \<open>The persisted schema\<close>

text \<open>
  The Prisma schema declares one \<^verbatim>\<open>model\<close> per document shape. A scalar field has a
  name, a type, an arity (\<^verbatim>\<open>T\<close>, \<^verbatim>\<open>T?\<close> or \<^verbatim>\<open>T[]\<close>), an optional
  \<^verbatim>\<open>@default(...)\<close> value and possibly the \<^verbatim>\<open>@updatedAt\<close> attribute. Relation
  fields (whose type is another model) are virtual, so they and the \<^verbatim>\<open>@@unique\<close>
  index directives are not part of the persisted shape and are left out; so are the
  embedded composite \<^verbatim>\<open>type\<close> declarations, which are referred to by name only.
\<close>

datatype arity = Required | Optional | Many

datatype field =
  Field (fieldName: string) (fieldType: string) (fieldArity: arity)
        (fieldDefault: "string option") (updatedAtAttr: bool)

datatype model = Model (modelName: string) (fields: "field list")

definition enums :: "(string \<times> string list) list" where
  "enums = [
     (''NoteLevel'', [''Info'', ''Warning'', ''Danger'', ''Error'']),
     (''SubscriptionState'', [''Created'', ''Deleted'']),
     (''SubscriptionPhase'', [''Pending'', ''Valid'', ''Expired'', ''ExpiredAndStopped'', ''Deleted'']),
     (''SubscriptionRenewalPlan'', [''Manual'', ''Monthly'', ''Yearly'']),
     (''SubscriptionRenewalPhase'', [''Pending'', ''Paid'', ''Failed'']),
     (''SubscriptionUpgradePhase'', [''Pending'', ''Completed'', ''Failed'']),
     (''AccountChargePhase'', [''Pending'', ''Paid'', ''Failed'']),
     (''Currency'', [''CNY'', ''USD'']),
     (''PaymentChannelType'', [''Manual'', ''Alipay'', ''WeChat'', ''Stripe'', ''Paypal'', ''Google'']),
     (''ApplicationState'', [''Running'', ''Stopped'', ''Restarting'', ''Deleted'']),
     (''ApplicationPhase'', [''Creating'', ''Created'', ''Starting'', ''Started'', ''Stopping'', ''Stopped'', ''Deleting'', ''Deleted'']),
     (''StorageState'', [''Active'', ''Inactive'', ''Deleted'']),
     (''StoragePhase'', [''Creating'', ''Created'', ''Deleting'', ''Deleted'']),
     (''BucketPolicy'', [''readwrite'', ''readonly'', ''private'']),
     (''DatabaseState'', [''Active'', ''Inactive'', ''Deleted'']),
     (''DatabasePhase'', [''Creating'', ''Created'', ''Deleting'', ''Deleted'']),
     (''HttpMethod'', [''GET'', ''POST'', ''PUT'', ''DELETE'', ''PATCH'', ''HEAD'']),
     (''TriggerState'', [''Active'', ''Inactive'', ''Deleted'']),
     (''TriggerPhase'', [''Creating'', ''Created'', ''Deleting'', ''Deleted'']),
     (''DomainState'', [''Active'', ''Inactive'', ''Deleted'']),
     (''DomainPhase'', [''Creating'', ''Created'', ''Deleting'', ''Deleted'']),
     (''AuthProviderState'', [''Enabled'', ''Disabled'']),
     (''SmsVerifyCodeType'', [''Signin'', ''Signup'', ''ResetPassword'', ''Bind'', ''Unbind'', ''ChangePhone''])
   ]"

definition User :: model where
  "User = Model ''User'' [
     Field ''id'' ''String'' Required (Some ''auto()'') False,
     Field ''username'' ''String'' Required None False,
     Field ''email'' ''String'' Optional None False,
     Field ''phone'' ''String'' Optional None False,
     Field ''createdAt'' ''DateTime'' Required (Some ''now()'') False,
     Field ''updatedAt'' ''DateTime'' Required None True
   ]"

definition UserPassword :: model where
  "UserPassword = Model ''UserPassword'' [
     Field ''id'' ''String'' Required (Some ''auto()'') False,
     Field ''uid'' ''String'' Required None False,
     Field ''password'' ''String'' Required None False,
     Field ''state'' ''String'' Required (Some ''Active'') False,
     Field ''createdAt'' ''DateTime'' Required (Some ''now()'') False,
     Field ''updatedAt'' ''DateTime'' Required None True
   ]"

definition UserProfile :: model where
  "UserProfile = Model ''UserProfile'' [
     Field ''id'' ''String'' Required (Some ''auto()'') False,
     Field ''uid'' ''String'' Required None False,
     Field ''openid'' ''String'' Optional None False,
     Field ''from'' ''String'' Optional None False,
     Field ''openData'' ''Json'' Optional None False,
     Field ''avatar'' ''String'' Optional None False,
     Field ''name'' ''String'' Optional None False,
     Field ''createdAt'' ''DateTime'' Required (Some ''now()'') False,
     Field ''updatedAt'' ''DateTime'' Required None True
   ]"

definition PersonalAccessToken :: model where
  "PersonalAccessToken = Model ''PersonalAccessToken'' [
     Field ''id'' ''String'' Required (Some ''auto()'') False,
     Field ''uid'' ''String'' Required None False,
     Field ''name'' ''String'' Required None False,
     Field ''token'' ''String'' Required None False,
     Field ''expiredAt'' ''DateTime'' Required None False,
     Field ''createdAt'' ''DateTime'' Required (Some ''now()'') False
   ]"

definition Region :: model where
  "Region = Model ''Region'' [
     Field ''id'' ''String'' Required (Some ''auto()'') False,
     Field ''name'' ''String'' Required None False,
     Field ''displayName'' ''String'' Required None False,
     Field ''clusterConf'' ''RegionClusterConf'' Required None False,
     Field ''databaseConf'' ''RegionDatabaseConf'' Required None False,
     Field ''gatewayConf'' ''RegionGatewayConf'' Required None False,
     Field ''storageConf'' ''RegionStorageConf'' Required None False,
     Field ''tls'' ''Boolean'' Required (Some ''false'') False,
     Field ''state'' ''String'' Required (Some ''Active'') False,
     Field ''notes'' ''Note'' Many None False,
     Field ''createdAt'' ''DateTime'' Required (Some ''now()'') False,
     Field ''updatedAt'' ''DateTime'' Required None True
   ]"

definition Bundle :: model where
  "Bundle = Model ''Bundle'' [
     Field ''id'' ''String'' Required (Some ''auto()'') False,
     Field ''name'' ''String'' Required None False,
     Field ''displayName'' ''String'' Required None False,
     Field ''regionId'' ''String'' Required None False,
     Field ''priority'' ''Int'' Required (Some ''0'') False,
     Field ''state'' ''String'' Required (Some ''Active'') False,
     Field ''limitCountPerUser'' ''Int'' Required None False,
     Field ''subscriptionOptions'' ''BundleSubscriptionOption'' Many None False,
     Field ''maxRenewalTime'' ''Int'' Required None False,
     Field ''resource'' ''BundleResource'' Required None False,
     Field ''notes'' ''Note'' Many None False,
     Field ''createdAt'' ''DateTime'' Required (Some ''now()'') False,
     Field ''updatedAt'' ''DateTime'' Required None True
   ]"

definition ApplicationBundle :: model where
  "ApplicationBundle = Model ''ApplicationBundle'' [
     Field ''id'' ''String'' Required (Some ''auto()'') False,
     Field ''appid'' ''String'' Required None False,
     Field ''bundleId'' ''String'' Required None False,
     Field ''name'' ''String'' Required None False,
     Field ''displayName'' ''String'' Required None False,
     Field ''resource'' ''BundleResource'' Required None False,
     Field ''createdAt'' ''DateTime'' Required (Some ''now()'') False,
     Field ''updatedAt'' ''DateTime'' Required None True
   ]"

definition Runtime :: model where
  "Runtime = Model ''Runtime'' [
     Field ''id'' ''String'' Required (Some ''auto()'') False,
     Field ''name'' ''String'' Required None False,
     Field ''type'' ''String'' Required None False,
     Field ''image'' ''RuntimeImageGroup'' Required None False,
     Field ''state'' ''String'' Required (Some ''Active'') False,
     Field ''version'' ''String'' Required None False,
     Field ''latest'' ''Boolean'' Required None False
   ]"

definition Subscription :: model where
  "Subscription = Model ''Subscription'' [
     Field ''id'' ''String'' Required (Some ''auto()'') False,
     Field ''input'' ''SubscriptionApplicationCreateInput'' Required None False,
     Field ''bundleId'' ''String'' Required None False,
     Field ''appid'' ''String'' Required None False,
     Field ''state'' ''SubscriptionState'' Required (Some ''Created'') False,
     Field ''phase'' ''SubscriptionPhase'' Required (Some ''Pending'') False,
     Field ''renewalPlan'' ''SubscriptionRenewalPlan'' Required (Some ''Manual'') False,
     Field ''expiredAt'' ''DateTime'' Required None False,
     Field ''lockedAt'' ''DateTime'' Required None False,
     Field ''createdAt'' ''DateTime'' Required (Some ''now()'') False,
     Field ''updatedAt'' ''DateTime'' Required None True,
     Field ''createdBy'' ''String'' Required None False
   ]"

definition SubscriptionRenewal :: model where
  "SubscriptionRenewal = Model ''SubscriptionRenewal'' [
     Field ''id'' ''String'' Required (Some ''auto()'') False,
     Field ''subscriptionId'' ''String'' Required None False,
     Field ''duration'' ''Int'' Required None False,
     Field ''amount'' ''Int'' Required None False,
     Field ''phase'' ''SubscriptionRenewalPhase'' Required (Some ''Pending'') False,
     Field ''message'' ''String'' Optional None False,
     Field ''lockedAt'' ''DateTime'' Required None False,
     Field ''createdAt'' ''DateTime'' Required (Some ''now()'') False,
     Field ''updatedAt'' ''DateTime'' Required None True,
     Field ''createdBy'' ''String'' Required None False
   ]"

definition SubscriptionUpgrade :: model where
  "SubscriptionUpgrade = Model ''SubscriptionUpgrade'' [
     Field ''id'' ''String'' Required (Some ''auto()'') False,
     Field ''appid'' ''String'' Required None False,
     Field ''subscriptionId'' ''String'' Required None False,
     Field ''originalBundleId'' ''String'' Required None False,
     Field ''targetBundleId'' ''String'' Required None False,
     Field ''phase'' ''SubscriptionUpgradePhase'' Required (Some ''Pending'') False,
     Field ''restart'' ''Boolean'' Required (Some ''false'') False,
     Field ''message'' ''String'' Optional None False,
     Field ''lockedAt'' ''DateTime'' Required None False,
     Field ''createdAt'' ''DateTime'' Required (Some ''now()'') False,
     Field ''updatedAt'' ''DateTime'' Required None True
   ]"

definition Account :: model where
  "Account = Model ''Account'' [
     Field ''id'' ''String'' Required (Some ''auto()'') False,
     Field ''balance'' ''Int'' Required (Some ''0'') False,
     Field ''state'' ''String'' Required (Some ''Active'') False,
     Field ''createdAt'' ''DateTime'' Required (Some ''now()'') False,
     Field ''updatedAt'' ''DateTime'' Required None True,
     Field ''createdBy'' ''String'' Required None False
   ]"

definition AccountTransaction :: model where
  "AccountTransaction = Model ''AccountTransaction'' [
     Field ''id'' ''String'' Required (Some ''auto()'') False,
     Field ''accountId'' ''String'' Required None False,
     Field ''amount'' ''Int'' Required None False,
     Field ''balance'' ''Int'' Required None False,
     Field ''message'' ''String'' Optional None False,
     Field ''createdAt'' ''DateTime'' Required (Some ''now()'') False,
     Field ''updatedAt'' ''DateTime'' Required None True
   ]"

definition AccountChargeOrder :: model where
  "AccountChargeOrder = Model ''AccountChargeOrder'' [
     Field ''id'' ''String'' Required (Some ''auto()'') False,
     Field ''accountId'' ''String'' Required None False,
     Field ''amount'' ''Int'' Required None False,
     Field ''currency'' ''Currency'' Required None False,
     Field ''phase'' ''AccountChargePhase'' Required (Some ''Pending'') False,
     Field ''channel'' ''PaymentChannelType'' Required None False,
     Field ''result'' ''Json'' Optional None False,
     Field ''message'' ''String'' Optional None False,
     Field ''createdAt'' ''DateTime'' Required (Some ''now()'') False,
     Field ''lockedAt'' ''DateTime'' Required None False,
     Field ''updatedAt'' ''DateTime'' Required None True,
     Field ''createdBy'' ''String'' Required None False
   ]"

definition PaymentChannel :: model where
  "PaymentChannel = Model ''PaymentChannel'' [
     Field ''id'' ''String'' Required (Some ''auto()'') False,
     Field ''type'' ''PaymentChannelType'' Required None False,
     Field ''name'' ''String'' Required None False,
     Field ''spec'' ''Json'' Required None False,
     Field ''state'' ''String'' Required (Some ''Active'') False,
     Field ''notes'' ''Note'' Many None False,
     Field ''createdAt'' ''DateTime'' Required (Some ''now()'') False,
     Field ''updatedAt'' ''DateTime'' Required None True
   ]"

definition Application :: model where
  "Application = Model ''Application'' [
     Field ''id'' ''String'' Required (Some ''auto()'') False,
     Field ''name'' ''String'' Required None False,
     Field ''appid'' ''String'' Required None False,
     Field ''regionId'' ''String'' Required None False,
     Field ''runtimeId'' ''String'' Required None False,
     Field ''tags'' ''String'' Many None False,
     Field ''state'' ''ApplicationState'' Required (Some ''Running'') False,
     Field ''phase'' ''ApplicationPhase'' Required (Some ''Creating'') False,
     Field ''createdAt'' ''DateTime'' Required (Some ''now()'') False,
     Field ''updatedAt'' ''DateTime'' Required None True,
     Field ''lockedAt'' ''DateTime'' Required None False,
     Field ''createdBy'' ''String'' Required None False
   ]"

definition ApplicationConfiguration :: model where
  "ApplicationConfiguration = Model ''ApplicationConfiguration'' [
     Field ''id'' ''String'' Required (Some ''auto()'') False,
     Field ''appid'' ''String'' Required None False,
     Field ''environments'' ''EnvironmentVariable'' Many None False,
     Field ''dependencies'' ''String'' Many (Some ''[]'') False,
     Field ''createdAt'' ''DateTime'' Required (Some ''now()'') False,
     Field ''updatedAt'' ''DateTime'' Required None True
   ]"

definition StorageUser :: model where
  "StorageUser = Model ''StorageUser'' [
     Field ''id'' ''String'' Required (Some ''auto()'') False,
     Field ''appid'' ''String'' Required None False,
     Field ''accessKey'' ''String'' Required None False,
     Field ''secretKey'' ''String'' Required None False,
     Field ''state'' ''StorageState'' Required (Some ''Active'') False,
     Field ''phase'' ''StoragePhase'' Required (Some ''Creating'') False,
     Field ''lockedAt'' ''DateTime'' Required None False,
     Field ''createdAt'' ''DateTime'' Required (Some ''now()'') False,
     Field ''updatedAt'' ''DateTime'' Required None True
   ]"

definition StorageBucket :: model where
  "StorageBucket = Model ''StorageBucket'' [
     Field ''id'' ''String'' Required (Some ''auto()'') False,
     Field ''appid'' ''String'' Required None False,
     Field ''name'' ''String'' Required None False,
     Field ''shortName'' ''String'' Required None False,
     Field ''policy'' ''BucketPolicy'' Required None False,
     Field ''state'' ''StorageState'' Required (Some ''Active'') False,
     Field ''phase'' ''StoragePhase'' Required (Some ''Creating'') False,
     Field ''lockedAt'' ''DateTime'' Required None False,
     Field ''createdAt'' ''DateTime'' Required (Some ''now()'') False,
     Field ''updatedAt'' ''DateTime'' Required None True
   ]"

definition Database :: model where
  "Database = Model ''Database'' [
     Field ''id'' ''String'' Required (Some ''auto()'') False,
     Field ''appid'' ''String'' Required None False,
     Field ''name'' ''String'' Required None False,
     Field ''user'' ''String'' Required None False,
     Field ''password'' ''String'' Required None False,
     Field ''state'' ''DatabaseState'' Required (Some ''Active'') False,
     Field ''phase'' ''DatabasePhase'' Required (Some ''Creating'') False,
     Field ''lockedAt'' ''DateTime'' Required None False,
     Field ''createdAt'' ''DateTime'' Required (Some ''now()'') False,
     Field ''updatedAt'' ''DateTime'' Required None True
   ]"

definition DatabasePolicy :: model where
  "DatabasePolicy = Model ''DatabasePolicy'' [
     Field ''id'' ''String'' Required (Some ''auto()'') False,
     Field ''appid'' ''String'' Required None False,
     Field ''name'' ''String'' Required None False,
     Field ''injector'' ''String'' Optional None False,
     Field ''createdAt'' ''DateTime'' Required (Some ''now()'') False,
     Field ''updatedAt'' ''DateTime'' Required None True
   ]"

definition DatabasePolicyRule :: model where
  "DatabasePolicyRule = Model ''DatabasePolicyRule'' [
     Field ''id'' ''String'' Required (Some ''auto()'') False,
     Field ''appid'' ''String'' Required None False,
     Field ''policyName'' ''String'' Required None False,
     Field ''collectionName'' ''String'' Required None False,
     Field ''value'' ''Json'' Required None False,
     Field ''createdAt'' ''DateTime'' Required (Some ''now()'') False,
     Field ''updatedAt'' ''DateTime'' Required None True
   ]"

definition CloudFunction :: model where
  "CloudFunction = Model ''CloudFunction'' [
     Field ''id'' ''String'' Required (Some ''auto()'') False,
     Field ''appid'' ''String'' Required None False,
     Field ''name'' ''String'' Required None False,
     Field ''source'' ''CloudFunctionSource'' Required None False,
     Field ''desc'' ''String'' Required None False,
     Field ''tags'' ''String'' Many None False,
     Field ''methods'' ''HttpMethod'' Many None False,
     Field ''params'' ''Json'' Optional None False,
     Field ''createdAt'' ''DateTime'' Required (Some ''now()'') False,
     Field ''updatedAt'' ''DateTime'' Required None True,
     Field ''createdBy'' ''String'' Required None False
   ]"

definition CronTrigger :: model where
  "CronTrigger = Model ''CronTrigger'' [
     Field ''id'' ''String'' Required (Some ''auto()'') False,
     Field ''appid'' ''String'' Required None False,
     Field ''desc'' ''String'' Required None False,
     Field ''cron'' ''String'' Required None False,
     Field ''target'' ''String'' Required None False,
     Field ''state'' ''TriggerState'' Required (Some ''Active'') False,
     Field ''phase'' ''TriggerPhase'' Required (Some ''Creating'') False,
     Field ''lockedAt'' ''DateTime'' Required None False,
     Field ''createdAt'' ''DateTime'' Required (Some ''now()'') False,
     Field ''updatedAt'' ''DateTime'' Required None True
   ]"

definition RuntimeDomain :: model where
  "RuntimeDomain = Model ''RuntimeDomain'' [
     Field ''id'' ''String'' Required (Some ''auto()'') False,
     Field ''appid'' ''String'' Required None False,
     Field ''domain'' ''String'' Required None False,
     Field ''state'' ''DomainState'' Required (Some ''Active'') False,
     Field ''phase'' ''DomainPhase'' Required (Some ''Creating'') False,
     Field ''lockedAt'' ''DateTime'' Required None False,
     Field ''createdAt'' ''DateTime'' Required (Some ''now()'') False,
     Field ''updatedAt'' ''DateTime'' Required None True
   ]"

definition BucketDomain :: model where
  "BucketDomain = Model ''BucketDomain'' [
     Field ''id'' ''String'' Required (Some ''auto()'') False,
     Field ''appid'' ''String'' Required None False,
     Field ''bucketName'' ''String'' Required None False,
     Field ''domain'' ''String'' Required None False,
     Field ''state'' ''DomainState'' Required (Some ''Active'') False,
     Field ''phase'' ''DomainPhase'' Required (Some ''Creating'') False,
     Field ''lockedAt'' ''DateTime'' Required None False,
     Field ''createdAt'' ''DateTime'' Required (Some ''now()'') False,
     Field ''updatedAt'' ''DateTime'' Required None True
   ]"

definition WebsiteHosting :: model where
  "WebsiteHosting = Model ''WebsiteHosting'' [
     Field ''id'' ''String'' Required (Some ''auto()'') False,
     Field ''appid'' ''String'' Required None False,
     Field ''bucketName'' ''String'' Required None False,
     Field ''domain'' ''String'' Required None False,
     Field ''isCustom'' ''Boolean'' Required (Some ''false'') False,
     Field ''state'' ''DomainState'' Required (Some ''Active'') False,
     Field ''phase'' ''DomainPhase'' Required (Some ''Creating'') False,
     Field ''createdAt'' ''DateTime'' Required (Some ''now()'') False,
     Field ''updatedAt'' ''DateTime'' Required None True,
     Field ''lockedAt'' ''DateTime'' Required None False
   ]"

definition AuthProvider :: model where
  "AuthProvider = Model ''AuthProvider'' [
     Field ''id'' ''String'' Required (Some ''auto()'') False,
     Field ''name'' ''String'' Required None False,
     Field ''bind'' ''Json'' Required None False,
     Field ''register'' ''Boolean'' Required None False,
     Field ''default'' ''Boolean'' Required None False,
     Field ''state'' ''AuthProviderState'' Required None False,
     Field ''config'' ''Json'' Required None False,
     Field ''notes'' ''Note'' Many None False,
     Field ''createdAt'' ''DateTime'' Required (Some ''now()'') False,
     Field ''updatedAt'' ''DateTime'' Required None True
   ]"

definition SmsVerifyCode :: model where
  "SmsVerifyCode = Model ''SmsVerifyCode'' [
     Field ''id'' ''String'' Required (Some ''auto()'') False,
     Field ''phone'' ''String'' Required None False,
     Field ''code'' ''String'' Required None False,
     Field ''ip'' ''String'' Required None False,
     Field ''type'' ''SmsVerifyCodeType'' Required None False,
     Field ''state'' ''Int'' Required (Some ''0'') False,
     Field ''createdAt'' ''DateTime'' Required (Some ''now()'') False,
     Field ''updatedAt'' ''DateTime'' Required None True
   ]"

definition Setting :: model where
  "Setting = Model ''Setting'' [
     Field ''id'' ''String'' Required (Some ''auto()'') False,
     Field ''key'' ''String'' Required None False,
     Field ''value'' ''String'' Required None False,
     Field ''desc'' ''String'' Required None False,
     Field ''metadata'' ''Json'' Optional None False
   ]"

definition schema :: "model list" where
  "schema =
     [User, UserPassword, UserProfile, PersonalAccessToken, Region, Bundle,
      ApplicationBundle, Runtime, Subscription, SubscriptionRenewal, SubscriptionUpgrade,
      Account, AccountTransaction, AccountChargeOrder, PaymentChannel, Application,
      ApplicationConfiguration, StorageUser, StorageBucket, Database, DatabasePolicy,
      DatabasePolicyRule, CloudFunction, CronTrigger, RuntimeDomain, BucketDomain,
      WebsiteHosting, AuthProvider, SmsVerifyCode, Setting]"

subsection \<open>Queries on the schema\<close>

definition lookupField :: "model \<Rightarrow> string \<Rightarrow> field option" where
  "lookupField m f = find (\<lambda>fd. fieldName fd = f) (fields m)"

definition hasField :: "model \<Rightarrow> string \<Rightarrow> bool" where
  "hasField m f = (lookupField m f \<noteq> None)"

text \<open>The values of the enum that types field \<open>f\<close> of model \<open>m\<close> (empty when the field is
  absent or not enum-typed).\<close>

definition enumValues :: "model \<Rightarrow> string \<Rightarrow> string list" where
  "enumValues m f =
     (case lookupField m f of
        None \<Rightarrow> []
      | Some fd \<Rightarrow> (case map_of enums (fieldType fd) of None \<Rightarrow> [] | Some vs \<Rightarrow> vs))"

text \<open>
  A resource kind takes part in reconciliation through its lock timestamp: the resource
  kinds are the models that declare \<^verbatim>\<open>lockedAt\<close>.
\<close>

definition resourceKinds :: "model list" where
  "resourceKinds = filter (\<lambda>m. hasField m ''lockedAt'') schema"



subsection \<open>Creating a record\<close>

text \<open>
  The client's \<^verbatim>\<open>create\<close> takes the values the caller supplies. It rejects a field the
  model does not declare, and a required field that is neither supplied nor filled in by
  the schema (\<^verbatim>\<open>@default\<close>, \<^verbatim>\<open>@updatedAt\<close>). A field that is not supplied takes its
  \<^verbatim>\<open>@default\<close> value; an \<^verbatim>\<open>@updatedAt\<close> field takes the time of the write. Values are
  kept as text: an enum value by its name, the generated ones by their generator
  (\<^verbatim>\<open>auto()\<close>, \<^verbatim>\<open>now()\<close>).
\<close>

definition filledBySchema :: "field \<Rightarrow> string option" where
  "filledBySchema fd = (if updatedAtAttr fd then Some ''now()'' else fieldDefault fd)"

definition unknownFields :: "model \<Rightarrow> (string \<times> string) list \<Rightarrow> string list" where
  "unknownFields m input = filter (\<lambda>k. \<not> hasField m k) (map fst input)"

definition missingFields :: "model \<Rightarrow> (string \<times> string) list \<Rightarrow> string list" where
  "missingFields m input =
     map fieldName
       (filter (\<lambda>fd. fieldArity fd = Required \<and> filledBySchema fd = None \<and>
                      map_of input (fieldName fd) = None) (fields m))"

text \<open>The value the schema gives field \<open>f\<close> of a new record when the caller supplies
  none.\<close>

definition schemaValue :: "model \<Rightarrow> string \<Rightarrow> string option" where
  "schemaValue m f = (case lookupField m f of None \<Rightarrow> None | Some fd \<Rightarrow> filledBySchema fd)"

definition createRecord :: "model \<Rightarrow> (string \<times> string) list \<Rightarrow> (string \<rightharpoonup> string) option" where
  "createRecord m input =
     (if unknownFields m input \<noteq> [] \<or> missingFields m input \<noteq> [] then None
      else Some (\<lambda>f. if hasField m f
                      then (case map_of input f of Some v \<Rightarrow> Some v | None \<Rightarrow> schemaValue m f)
                      else None))"


section \<open>The Lock Manager and the outcome handling of the Transition Executor\<close>

text \<open>
  The reconciliation engine itself is not among the repository's source files; the
  schema only declares the fields it works on. Its Lock Manager and the outcome handling
  of its Transition Executor are modelled from the specification. Timestamps and
  durations are integers (milliseconds).
\<close>

text \<open>Modelled from the spec: the Resource Record of section 3 (the engine's view of a
  document; the engine is not in the source files). \<open>lockedAt\<close> is absent or the start of
  the current lease; \<open>message\<close> is optional.\<close>

record ('s, 'p) resource =
  id' :: nat
  ownerKey :: string
  desiredState :: 's
  actualPhase :: 'p
  lockedAt :: "int option"
  message :: "string option"
  createdAt :: int
  updatedAt :: int

text \<open>Modelled from the spec: the result of \<^verbatim>\<open>tryAcquire\<close>, \<^verbatim>\<open>LeaseToken | Denied\<close>
  (section 4.1; the Lock Manager is not in the source files).\<close>

datatype acquired = LeaseToken int | Denied

text \<open>Modelled from the spec: \<^verbatim>\<open>isExpired(record, now)\<close> of the Lock Manager (section
  4.1, not in the source files). A record is claimable when \<open>lockedAt\<close> is absent or older
  than the lease duration; a lease taken at \<open>T\<close> is claimable again at
  \<open>T + leaseDuration\<close> and never before (section 8).\<close>

definition isExpired :: "int \<Rightarrow> ('s, 'p) resource \<Rightarrow> int \<Rightarrow> bool" where
  "isExpired leaseDuration r now =
     (case lockedAt r of None \<Rightarrow> True | Some t \<Rightarrow> t + leaseDuration \<le> now)"

text \<open>Modelled from the spec: \<^verbatim>\<open>tryAcquire(recordId, leaseDuration)\<close> of the Lock
  Manager (section 4.1, not in the source files), as one atomic compare-and-set on the
  record at time \<open>now\<close>: when the record is claimable, \<open>lockedAt\<close> is set to \<open>now\<close> and
  the token is that timestamp; otherwise it returns \<open>Denied\<close> at once.\<close>

definition tryAcquire :: "int \<Rightarrow> int \<Rightarrow> ('s, 'p) resource \<Rightarrow> acquired \<times> ('s, 'p) resource" where
  "tryAcquire now leaseDuration r =
     (if isExpired leaseDuration r now
      then (LeaseToken now, r\<lparr>lockedAt := Some now\<rparr>)
      else (Denied, r))"

text \<open>Modelled from the spec: \<^verbatim>\<open>release(recordId, token)\<close> of the Lock Manager (section
  4.1, not in the source files): it clears \<open>lockedAt\<close>, and is a no-op when the token no
  longer matches the record's current \<open>lockedAt\<close>.\<close>

definition release :: "int \<Rightarrow> ('s, 'p) resource \<Rightarrow> ('s, 'p) resource" where
  "release token r = (if lockedAt r = Some token then r\<lparr>lockedAt := None\<rparr> else r)"

subsection \<open>Concurrent workers\<close>

text \<open>Modelled from the spec: the workers of section 5 (the scheduler is not in the
  source files). Many workers share the store and one clock; each step is one atomic
  operation of one worker on one record, or the passing of time. \<open>tokens s w i\<close> is the
  token worker \<open>w\<close> was granted for record \<open>i\<close> and has not released.\<close>

datatype event = Tick nat | Acquire nat nat | Release nat nat

text \<open>Modelled from the spec: the shared store, the clock and the tokens the workers
  hold (section 5; not in the source files).\<close>

record ('s, 'p) world =
  clock :: int
  documents :: "nat \<Rightarrow> ('s, 'p) resource"
  tokens :: "nat \<Rightarrow> nat \<Rightarrow> int option"

text \<open>Modelled from the spec: one step of the interleaving (sections 4.1 and 5; not in
  the source files). Every call of \<^verbatim>\<open>tryAcquire\<close> passes the configured lease duration
  \<open>d\<close>; a worker releases with the token it holds.\<close>

fun step :: "int \<Rightarrow> event \<Rightarrow> ('s, 'p) world \<Rightarrow> ('s, 'p) world" where
  "step d (Tick n) s = s\<lparr>clock := clock s + int n\<rparr>"
| "step d (Acquire w i) s =
     (case tryAcquire (clock s) d (documents s i) of
        (LeaseToken t, r) \<Rightarrow>
          s\<lparr>documents := (documents s)(i := r),
            tokens := (tokens s)(w := (tokens s w)(i \<mapsto> t))\<rparr>
      | (Denied, _) \<Rightarrow> s)"
| "step d (Release w i) s =
     (case tokens s w i of
        None \<Rightarrow> s
      | Some t \<Rightarrow>
          s\<lparr>documents := (documents s)(i := release t (documents s i)),
            tokens := (tokens s)(w := (tokens s w)(i := None))\<rparr>)"

text \<open>Modelled from the spec: a run of the workers, one step after the other (section
  5; not in the source files).\<close>

fun run :: "int \<Rightarrow> event list \<Rightarrow> ('s, 'p) world \<Rightarrow> ('s, 'p) world" where
  "run d [] s = s"
| "run d (e # es) s = run d es (step d e s)"

text \<open>Modelled from the spec: a worker holds a valid (non-expired) lease on a record
  while it has the token of a lease that started less than the lease duration ago
  (section 3, invariants; not in the source files).\<close>

definition holdsLease :: "int \<Rightarrow> ('s, 'p) world \<Rightarrow> nat \<Rightarrow> nat \<Rightarrow> bool" where
  "holdsLease d s w i = (case tokens s w i of None \<Rightarrow> False | Some t \<Rightarrow> clock s < t + d)"

subsection \<open>Outcome handling\<close>




subsection \<open>The reconciliation cycle\<close>


text \<open>Modelled from the spec: a record under reconciliation, with the retry count
  stored alongside it (section 4.5, the explicit counter; not in the source files) and
  the number of times the Driver Adapter has been invoked on it.\<close>

record 's task =
  doc :: "('s, string) resource"
  retries :: nat
  applied :: nat







text \<open>Modelled from the spec: the invariant behind mutual exclusion (sections 3 and 4.1;
  not in the source files): the record's \<open>lockedAt\<close> is the token of whoever holds a
  valid lease on it, and nobody else holds one.\<close>

definition leaseInv :: "int \<Rightarrow> ('s, 'p) world \<Rightarrow> bool" where
  "leaseInv d s =
     (\<forall>w i. holdsLease d s w i \<longrightarrow>
        lockedAt (documents s i) = tokens s w i \<and> (\<forall>w'. holdsLease d s w' i \<longrightarrow> w' = w))"


section \<open>The system-server process\<close>

text \<open>
  \<^verbatim>\<open>index.ts\<close> builds an express server, lets it listen and installs two process-level
  listeners:
  \<^verbatim>\<open>
  server.listen(Config.PORT, () => logger.info(`listened on ${Config.PORT}`))

  process.on('unhandledRejection', (reason, promise) => {
    logger.error(`Caught unhandledRejection:`, reason, promise)
  })
  process.on('uncaughtException', err => {
    logger.error(`Caught uncaughtException:`, err)
  })
  \<close>
  The process is a state: whether it still runs, its exit code, the lines the logger has
  written and the requests it has passed to the router. The logger
  (\<^verbatim>\<open>./lib/logger\<close>) appends a line made of its arguments.
\<close>

datatype level = INFO | TRACE | ERROR

text \<open>
  A request as the middleware of \<^verbatim>\<open>index.ts\<close> sees it: the id \<^verbatim>\<open>uuidv4()\<close> gives it,
  the method and the url, the \<^verbatim>\<open>referer\<close> and \<^verbatim>\<open>user-agent\<close> headers when present,
  whether the request is accepted (\<^verbatim>\<open>express.json\<close> parses the body and the token
  utilities return), and the object of body, headers and parsed token that the trace
  line prints.
\<close>

record request =
  requestId :: string
  method' :: string
  url :: string
  referer :: "string option"
  userAgent :: "string option"
  accepted :: bool
  traced :: string

text \<open>What happens to the process: a promise is rejected with nobody handling it (the
  reason and the promise), an exception is thrown with nobody catching it, or a request
  arrives.\<close>

datatype processEvent =
  UnhandledRejection string string | UncaughtException string | Request request

record process =
  running :: bool
  exitCode :: "nat option"
  logged :: "(level \<times> string list) list"
  routed :: "request list"

definition logger_error :: "string list \<Rightarrow> process \<Rightarrow> process" where
  "logger_error args p = p\<lparr>logged := logged p @ [(ERROR, args)]\<rparr>"

definition logger_info :: "string list \<Rightarrow> process \<Rightarrow> process" where
  "logger_info args p = p\<lparr>logged := logged p @ [(INFO, args)]\<rparr>"

definition logger_trace :: "string list \<Rightarrow> process \<Rightarrow> process" where
  "logger_trace args p = p\<lparr>logged := logged p @ [(TRACE, args)]\<rparr>"

text \<open>The listeners registered with \<^verbatim>\<open>process.on\<close>, by event name; a listener is
  called with the event's arguments.\<close>

record listeners =
  unhandledRejection :: "(string list \<Rightarrow> process \<Rightarrow> process) list"
  uncaughtException :: "(string list \<Rightarrow> process \<Rightarrow> process) list"

definition noListeners :: listeners where
  "noListeners = \<lparr>unhandledRejection = [], uncaughtException = []\<rparr>"

text \<open>The two listeners of \<^verbatim>\<open>index.ts\<close>.\<close>

definition installed :: listeners where
  "installed =
     \<lparr>unhandledRejection = [\<lambda>args. logger_error (''Caught unhandledRejection:'' # args)],
      uncaughtException = [\<lambda>args. logger_error (''Caught uncaughtException:'' # args)]\<rparr>"

text \<open>
  The request middleware of \<^verbatim>\<open>index.ts\<close>:
  \<^verbatim>\<open>
  server.use(express.json({ limit: '10000kb' }) as any)
  ...
  server.use(function (req, _res, next) {
    ...
    const requestId = req['requestId'] = uuidv4()
    logger.info(requestId, `${req.method} "${req.url}" - referer: ${req.get('referer') || '-'} ${req.get('user-agent')}`)
    logger.trace(requestId, `${req.method} ${req.url}`, { body: req.body, headers: req.headers, auth })
    next()
  })
  server.use(router)
  \<close>
  A request that is not accepted (\<^verbatim>\<open>express.json\<close> refuses the body, or a token utility
  throws) is answered by express with an error: nothing is logged for it and the router
  is not reached. Otherwise an info line and a trace line are written and the request is
  handed to the router. What the response carries (the \<^verbatim>\<open>X-Powered-By\<close> header among
  it) is not part of the process state.
\<close>

definition infoText :: "request \<Rightarrow> string" where
  "infoText req =
     method' req @ '' '' @ [CHR 0x22] @ url req @ [CHR 0x22] @ '' - referer: '' @
     (case referer req of None \<Rightarrow> ''-'' | Some r \<Rightarrow> if r = [] then ''-'' else r) @ '' '' @
     (case userAgent req of None \<Rightarrow> ''undefined'' | Some u \<Rightarrow> u)"

definition traceText :: "request \<Rightarrow> string" where
  "traceText req = method' req @ '' '' @ url req"

definition serve :: "request \<Rightarrow> process \<Rightarrow> process" where
  "serve req p =
     (if \<not> accepted req then p
      else (logger_trace [requestId req, traceText req, traced req]
              (logger_info [requestId req, infoText req] p))
             \<lparr>routed := routed p @ [req]\<rparr>)"

text \<open>
  The runtime's part: an exited process handles nothing. An uncaught exception is passed
  to the \<^verbatim>\<open>uncaughtException\<close> listeners when there are any, and the process goes on;
  with none, the process exits with code 1. An unhandled rejection is passed to the
  \<^verbatim>\<open>unhandledRejection\<close> listeners when there are any; with none, it is raised as an
  uncaught exception.
\<close>

definition callAll ::
    "(string list \<Rightarrow> process \<Rightarrow> process) list \<Rightarrow> string list \<Rightarrow> process \<Rightarrow> process" where
  "callAll hs args p = fold (\<lambda>h. h args) hs p"

definition raiseUncaught :: "listeners \<Rightarrow> string \<Rightarrow> process \<Rightarrow> process" where
  "raiseUncaught L err p =
     (if uncaughtException L = [] then p\<lparr>running := False, exitCode := Some 1\<rparr>
      else callAll (uncaughtException L) [err] p)"

fun deliver :: "listeners \<Rightarrow> processEvent \<Rightarrow> process \<Rightarrow> process" where
  "deliver L ev p =
     (if \<not> running p then p
      else (case ev of
              UncaughtException err \<Rightarrow> raiseUncaught L err p
            | UnhandledRejection reason promise \<Rightarrow>
                (if unhandledRejection L = [] then raiseUncaught L reason p
                 else callAll (unhandledRejection L) [reason, promise] p)
            | Request req \<Rightarrow> serve req p))"

definition serverLife :: "listeners \<Rightarrow> processEvent list \<Rightarrow> process \<Rightarrow> process" where
  "serverLife L evs p = fold (deliver L) evs p"

text \<open>The process once \<^verbatim>\<open>index.ts\<close> has been loaded and the server listens on
  \<^verbatim>\<open>Config.PORT\<close>: the callback of \<^verbatim>\<open>server.listen\<close> has written its info line.\<close>

definition started :: "string \<Rightarrow> process" where
  "started port =
     \<lparr>running = True, exitCode = None, logged = [(INFO, [''listened on '' @ port])],
      routed = []\<rparr>"

text \<open>What a surviving server is expected to show for a sequence of events: the requests
  that reach the router, in order, and the lines of the log, in order: for a rejection
  and for an exception the one error line with the event's arguments, for a request its
  info and trace lines.\<close>

definition requestsOf :: "processEvent list \<Rightarrow> request list" where
  "requestsOf evs =
     concat (map (\<lambda>ev. case ev of
                          Request req \<Rightarrow> (if accepted req then [req] else [])
                        | _ \<Rightarrow> []) evs)"

definition linesOf :: "processEvent list \<Rightarrow> (level \<times> string list) list" where
  "linesOf evs =
     concat (map (\<lambda>ev. case ev of
                          UnhandledRejection reason promise \<Rightarrow>
                            [(ERROR, [''Caught unhandledRejection:'', reason, promise])]
                        | UncaughtException err \<Rightarrow>
                            [(ERROR, [''Caught uncaughtException:'', err])]
                        | Request req \<Rightarrow>
                            (if accepted req
                             then [(INFO, [requestId req, infoText req]),
                                   (TRACE, [requestId req, traceText req, traced req])]
                             else [])) evs)"

section \<open>The save handler of the DataPanel\<close>

text \<open>
  \<^verbatim>\<open>
  const handleData = async () => {
    let params = {};
    try {
      params = JSON.parse(record);
      if (Object.keys(params).length === 0) {
        globalStore.showError(t("DataEntry.CreateError"));
        return;
      }
      await updateDataMutation.mutateAsync(params);
    } catch (error) {
      globalStore.showError(error?.toString());
      return;
    }
  };
  \<close>
  A parsed JSON text is a value of \<open>jsvalue\<close>; the numbers' type is left open.
\<close>

datatype 'n jsvalue =
  JNull | JBool bool | JNumber 'n | JString string
  | JArray "'n jsvalue list" | JObject "(string \<times> 'n jsvalue) list"

text \<open>\<^verbatim>\<open>Object.keys(v).length\<close>: \<^verbatim>\<open>Object.keys\<close> throws a TypeError on \<^verbatim>\<open>null\<close>; a
  boolean or a number has no own keys; a string and an array have their indices; an
  object has its distinct member names.\<close>

definition keyCount :: "'n jsvalue \<Rightarrow> string + nat" where
  "keyCount v =
     (case v of
        JNull \<Rightarrow> Inl ''TypeError: Cannot convert undefined or null to object''
      | JBool b \<Rightarrow> Inr 0
      | JNumber n \<Rightarrow> Inr 0
      | JString s \<Rightarrow> Inr (length s)
      | JArray xs \<Rightarrow> Inr (length xs)
      | JObject kvs \<Rightarrow> Inr (length (remdups (map fst kvs))))"

text \<open>What the handler is given: \<^verbatim>\<open>JSON.parse\<close> (\<open>Inl\<close> is the SyntaxError it throws),
  the update mutation (\<open>Inl\<close> is the error it rejects with, \<open>Inr\<close> the stored documents
  after the update) and the translation function \<^verbatim>\<open>t\<close>.\<close>

record ('n, 'd) env =
  JSON_parse :: "string \<Rightarrow> string + 'n jsvalue"
  mutateAsync :: "'n jsvalue \<Rightarrow> 'd \<Rightarrow> string + 'd"
  t' :: "string \<Rightarrow> string"

text \<open>What the handler acts on: the errors shown, the calls of the mutation, and the
  stored documents.\<close>

record ('n, 'd) panel =
  shownErrors :: "string list"
  mutateCalls :: "'n jsvalue list"
  stored :: 'd

definition showError :: "string \<Rightarrow> ('n, 'd) panel \<Rightarrow> ('n, 'd) panel" where
  "showError msg st = st\<lparr>shownErrors := shownErrors st @ [msg]\<rparr>"

definition handleData :: "('n, 'd) env \<Rightarrow> string \<Rightarrow> ('n, 'd) panel \<Rightarrow> ('n, 'd) panel" where
  "handleData E record st =
     (case JSON_parse E record of
        Inl syntaxError \<Rightarrow> showError syntaxError st
      | Inr params \<Rightarrow>
          (case keyCount params of
             Inl typeError \<Rightarrow> showError typeError st
           | Inr n \<Rightarrow>
               if n = 0 then showError (t' E ''DataEntry.CreateError'') st
               else (case mutateAsync E params (stored st) of
                       Inl rejected \<Rightarrow>
                         showError rejected (st\<lparr>mutateCalls := mutateCalls st @ [params]\<rparr>)
                     | Inr docs \<Rightarrow>
                         st\<lparr>mutateCalls := mutateCalls st @ [params], stored := docs\<rparr>)))"


section \<open>Properties of the schema\<close>

lemmas model_defs =
  User_def UserPassword_def UserProfile_def PersonalAccessToken_def Region_def Bundle_def
  ApplicationBundle_def Runtime_def Subscription_def SubscriptionRenewal_def
  SubscriptionUpgrade_def Account_def AccountTransaction_def AccountChargeOrder_def
  PaymentChannel_def Application_def ApplicationConfiguration_def StorageUser_def
  StorageBucket_def Database_def DatabasePolicy_def DatabasePolicyRule_def
  CloudFunction_def CronTrigger_def RuntimeDomain_def BucketDomain_def
  WebsiteHosting_def AuthProvider_def SmsVerifyCode_def Setting_def

lemma resourceKinds_eq:
  "resourceKinds =
     [Subscription, SubscriptionRenewal, SubscriptionUpgrade, AccountChargeOrder,
      Application, StorageUser, StorageBucket, Database, CronTrigger,
      RuntimeDomain, BucketDomain, WebsiteHosting]"
  by (simp add: resourceKinds_def schema_def hasField_def lookupField_def model_defs)

lemma Application_is_kind: "Application \<in> set resourceKinds"
  by (simp add: resourceKinds_eq)


lemma StorageUser_is_kind: "StorageUser \<in> set resourceKinds"
  by (simp add: resourceKinds_eq)

subsection \<open>The fields every resource kind carries\<close>




subsection \<open>The state and phase of a new record\<close>

lemma createRecord_omitted:
  "createRecord m input = Some r \<Longrightarrow> map_of input f = None \<Longrightarrow> r f = schemaValue m f"
  by (auto simp: createRecord_def hasField_def schemaValue_def split: if_splits option.splits)

lemma kind_state_phase:
  "hasField Subscription ''state''" "schemaValue Subscription ''state'' = Some ''Created''"
  "schemaValue Subscription ''phase'' = Some ''Pending''"
  "enumValues Subscription ''state'' = [''Created'', ''Deleted'']"
  "enumValues Subscription ''phase'' =
     [''Pending'', ''Valid'', ''Expired'', ''ExpiredAndStopped'', ''Deleted'']"
  "\<not> hasField SubscriptionRenewal ''state''" "schemaValue SubscriptionRenewal ''state'' = None"
  "schemaValue SubscriptionRenewal ''phase'' = Some ''Pending''"
  "enumValues SubscriptionRenewal ''phase'' = [''Pending'', ''Paid'', ''Failed'']"
  "\<not> hasField SubscriptionUpgrade ''state''" "schemaValue SubscriptionUpgrade ''state'' = None"
  "schemaValue SubscriptionUpgrade ''phase'' = Some ''Pending''"
  "enumValues SubscriptionUpgrade ''phase'' = [''Pending'', ''Completed'', ''Failed'']"
  "\<not> hasField AccountChargeOrder ''state''" "schemaValue AccountChargeOrder ''state'' = None"
  "schemaValue AccountChargeOrder ''phase'' = Some ''Pending''"
  "enumValues AccountChargeOrder ''phase'' = [''Pending'', ''Paid'', ''Failed'']"
  "hasField Application ''state''" "schemaValue Application ''state'' = Some ''Running''"
  "schemaValue Application ''phase'' = Some ''Creating''"
  "enumValues Application ''state'' = [''Running'', ''Stopped'', ''Restarting'', ''Deleted'']"
  "enumValues Application ''phase'' =
     [''Creating'', ''Created'', ''Starting'', ''Started'', ''Stopping'', ''Stopped'',
      ''Deleting'', ''Deleted'']"
  "hasField StorageUser ''state''" "schemaValue StorageUser ''state'' = Some ''Active''"
  "schemaValue StorageUser ''phase'' = Some ''Creating''"
  "enumValues StorageUser ''state'' = [''Active'', ''Inactive'', ''Deleted'']"
  "enumValues StorageUser ''phase'' = [''Creating'', ''Created'', ''Deleting'', ''Deleted'']"
  "hasField StorageBucket ''state''" "schemaValue StorageBucket ''state'' = Some ''Active''"
  "schemaValue StorageBucket ''phase'' = Some ''Creating''"
  "enumValues StorageBucket ''state'' = [''Active'', ''Inactive'', ''Deleted'']"
  "enumValues StorageBucket ''phase'' = [''Creating'', ''Created'', ''Deleting'', ''Deleted'']"
  "hasField Database ''state''" "schemaValue Database ''state'' = Some ''Active''"
  "schemaValue Database ''phase'' = Some ''Creating''"
  "enumValues Database ''state'' = [''Active'', ''Inactive'', ''Deleted'']"
  "enumValues Database ''phase'' = [''Creating'', ''Created'', ''Deleting'', ''Deleted'']"
  "hasField CronTrigger ''state''" "schemaValue CronTrigger ''state'' = Some ''Active''"
  "schemaValue CronTrigger ''phase'' = Some ''Creating''"
  "enumValues CronTrigger ''state'' = [''Active'', ''Inactive'', ''Deleted'']"
  "enumValues CronTrigger ''phase'' = [''Creating'', ''Created'', ''Deleting'', ''Deleted'']"
  "hasField RuntimeDomain ''state''" "schemaValue RuntimeDomain ''state'' = Some ''Active''"
  "schemaValue RuntimeDomain ''phase'' = Some ''Creating''"
  "enumValues RuntimeDomain ''state'' = [''Active'', ''Inactive'', ''Deleted'']"
  "enumValues RuntimeDomain ''phase'' = [''Creating'', ''Created'', ''Deleting'', ''Deleted'']"
  "hasField BucketDomain ''state''" "schemaValue BucketDomain ''state'' = Some ''Active''"
  "schemaValue BucketDomain ''phase'' = Some ''Creating''"
  "enumValues BucketDomain ''state'' = [''Active'', ''Inactive'', ''Deleted'']"
  "enumValues BucketDomain ''phase'' = [''Creating'', ''Created'', ''Deleting'', ''Deleted'']"
  "hasField WebsiteHosting ''state''" "schemaValue WebsiteHosting ''state'' = Some ''Active''"
  "schemaValue WebsiteHosting ''phase'' = Some ''Creating''"
  "enumValues WebsiteHosting ''state'' = [''Active'', ''Inactive'', ''Deleted'']"
  "enumValues WebsiteHosting ''phase'' = [''Creating'', ''Created'', ''Deleting'', ''Deleted'']"
  by (simp_all add: schemaValue_def filledBySchema_def enumValues_def enums_def hasField_def
      lookupField_def model_defs)


text \<open>
  C8, as stated, fails: the claim gives every resource kind an initial desired state. A
  \<open>SubscriptionRenewal\<close> is a resource kind with no \<^verbatim>\<open>state\<close> field, so a newly created
  renewal has no desired state at all.
\<close>

theorem new_record_state_counterexample:
  "SubscriptionRenewal \<in> set resourceKinds \<and>
   (\<exists>r. createRecord SubscriptionRenewal
           [(''subscriptionId'', ''s1''), (''duration'', ''3600''), (''amount'', ''100''),
            (''lockedAt'', ''0''), (''createdBy'', ''u1'')] = Some r \<and>
         r ''state'' = None \<and> r ''phase'' = Some ''Pending'')"
  by (simp add: resourceKinds_eq createRecord_def unknownFields_def missingFields_def
      schemaValue_def filledBySchema_def hasField_def lookupField_def model_defs)

text \<open>
  C8, amended: for every resource kind that declares a \<^verbatim>\<open>state\<close> field, a record
  created without an explicit state and phase has a desired state that is a value of
  the kind's state enum other than \<open>Deleted\<close>, and an actual phase that is the kind's
  \<open>Creating\<close> or \<open>Pending\<close> value. The kinds without a \<^verbatim>\<open>state\<close> field
  (\<open>SubscriptionRenewal\<close>, \<open>SubscriptionUpgrade\<close>, \<open>AccountChargeOrder\<close>) have no desired
  state; their new records start in the phase \<open>Pending\<close>.
\<close>

theorem new_record_initial_state_and_phase:
  "\<forall>m \<in> set resourceKinds.
     createRecord m input = Some r \<and>
     map_of input ''state'' = None \<and> map_of input ''phase'' = None \<longrightarrow>
       (if hasField m ''state''
        then (\<exists>s. r ''state'' = Some s \<and> s \<in> set (enumValues m ''state'') \<and> s \<noteq> ''Deleted'') \<and>
             (\<exists>p. r ''phase'' = Some p \<and> p \<in> set (enumValues m ''phase'') \<and>
                  (p = ''Creating'' \<or> p = ''Pending''))
        else r ''state'' = None \<and> r ''phase'' = Some ''Pending'' \<and>
             ''Pending'' \<in> set (enumValues m ''phase''))"
proof (intro ballI impI)
  fix m
  assume m: "m \<in> set resourceKinds"
    and c: "createRecord m input = Some r \<and>
            map_of input ''state'' = None \<and> map_of input ''phase'' = None"
  from c have c1: "createRecord m input = Some r"
    and c2: "map_of input ''state'' = None" and c3: "map_of input ''phase'' = None"
    by simp_all
  have st: "r ''state'' = schemaValue m ''state''"
    by (rule createRecord_omitted [OF c1 c2])
  have ph: "r ''phase'' = schemaValue m ''phase''"
    by (rule createRecord_omitted [OF c1 c3])
  from m show
    "if hasField m ''state''
     then (\<exists>s. r ''state'' = Some s \<and> s \<in> set (enumValues m ''state'') \<and> s \<noteq> ''Deleted'') \<and>
          (\<exists>p. r ''phase'' = Some p \<and> p \<in> set (enumValues m ''phase'') \<and>
               (p = ''Creating'' \<or> p = ''Pending''))
     else r ''state'' = None \<and> r ''phase'' = Some ''Pending'' \<and>
          ''Pending'' \<in> set (enumValues m ''phase'')"
    unfolding resourceKinds_eq st ph
    by (auto simp: kind_state_phase)
qed

theorem new_record_initial_state_and_phase_witness:
  "Application \<in> set resourceKinds \<and> StorageUser \<in> set resourceKinds \<and>
   (\<exists>r. createRecord Application
           [(''name'', ''demo''), (''appid'', ''a1''), (''regionId'', ''r1''),
            (''runtimeId'', ''rt1''), (''lockedAt'', ''0''), (''createdBy'', ''u1'')] = Some r \<and>
         r ''state'' = Some ''Running'' \<and> r ''phase'' = Some ''Creating'') \<and>
   (\<exists>r. createRecord StorageUser
           [(''appid'', ''a1''), (''accessKey'', ''ak''), (''secretKey'', ''sk''),
            (''lockedAt'', ''0'')] = Some r \<and>
         r ''state'' = Some ''Active'' \<and> r ''phase'' = Some ''Creating'')"
proof -
  let ?ia = "[(''name'', ''demo''), (''appid'', ''a1''), (''regionId'', ''r1''),
            (''runtimeId'', ''rt1''), (''lockedAt'', ''0''), (''createdBy'', ''u1'')]"
  let ?is = "[(''appid'', ''a1''), (''accessKey'', ''ak''), (''secretKey'', ''sk''),
            (''lockedAt'', ''0'')]"
  obtain ra where ra: "createRecord Application ?ia = Some ra"
    by (simp add: createRecord_def unknownFields_def missingFields_def
        filledBySchema_def hasField_def lookupField_def Application_def)
  obtain rs where rs: "createRecord StorageUser ?is = Some rs"
    by (simp add: createRecord_def unknownFields_def missingFields_def
        filledBySchema_def hasField_def lookupField_def StorageUser_def)
  have a: "ra ''state'' = Some ''Running'' \<and> ra ''phase'' = Some ''Creating''"
    using createRecord_omitted [OF ra] by (simp add: kind_state_phase)
  have s: "rs ''state'' = Some ''Active'' \<and> rs ''phase'' = Some ''Creating''"
    using createRecord_omitted [OF rs] by (simp add: kind_state_phase)
  have "\<exists>s. ra ''state'' = Some s \<and> s \<in> set (enumValues Application ''state'') \<and> s \<noteq> ''Deleted''"
    using new_record_initial_state_and_phase [of ?ia ra] Application_is_kind ra
    by (auto simp: kind_state_phase)
  moreover
  have "\<exists>s. rs ''state'' = Some s \<and> s \<in> set (enumValues StorageUser ''state'') \<and> s \<noteq> ''Deleted''"
    using new_record_initial_state_and_phase [of ?is rs] StorageUser_is_kind rs
    by (auto simp: kind_state_phase)
  ultimately
  have "ra ''state'' \<noteq> Some ''Deleted'' \<and> rs ''state'' \<noteq> Some ''Deleted''"
    by auto
  with a s ra rs Application_is_kind StorageUser_is_kind show ?thesis by simp
qed

subsection \<open>The Failed phase\<close>











section \<open>Properties of the Lock Manager\<close>

subsection \<open>Acquisition is a compare-and-set\<close>

text \<open>
  C2: \<^verbatim>\<open>tryAcquire\<close> succeeds exactly when the record's \<open>lockedAt\<close> is absent or at
  least the lease duration old. On success the only change to the record is that
  \<open>lockedAt\<close> becomes \<open>now\<close>, and the token is that timestamp; otherwise the result is
  \<open>Denied\<close> and the record is unchanged.
\<close>

theorem tryAcquire_compare_and_set:
  "(fst (tryAcquire now leaseDuration r) \<noteq> Denied) =
     (lockedAt r = None \<or> (\<exists>t. lockedAt r = Some t \<and> t + leaseDuration \<le> now)) \<and>
   tryAcquire now leaseDuration r =
     (if lockedAt r = None \<or> (\<exists>t. lockedAt r = Some t \<and> t + leaseDuration \<le> now)
      then (LeaseToken now, r\<lparr>lockedAt := Some now\<rparr>)
      else (Denied, r))"
  by (cases "lockedAt r") (simp_all add: tryAcquire_def isExpired_def)

subsection \<open>A lease that is never released\<close>

text \<open>
  C3: when a lease is acquired at time \<open>T\<close> and not released, a further \<^verbatim>\<open>tryAcquire\<close>
  at time \<open>now\<close> succeeds exactly when \<open>T + leaseDuration \<le> now\<close>: at every such time,
  and at no time before.
\<close>

theorem lease_claimable_from_expiry_only:
  assumes "tryAcquire T leaseDuration r = (LeaseToken tok, r1)"
  shows "(fst (tryAcquire now leaseDuration r1) \<noteq> Denied) = (T + leaseDuration \<le> now)"
  using assms by (auto simp: tryAcquire_def isExpired_def split: if_splits)

theorem lease_claimable_from_expiry_only_witness:
  "tryAcquire 100 30 (\<lparr>id' = 1, ownerKey = ''app-1'', desiredState = ''Running'',
       actualPhase = ''Creating'', lockedAt = None, message = None,
       createdAt = 0, updatedAt = 0\<rparr> :: (string, string) resource) =
     (LeaseToken 100,
      \<lparr>id' = 1, ownerKey = ''app-1'', desiredState = ''Running'',
       actualPhase = ''Creating'', lockedAt = Some 100, message = None,
       createdAt = 0, updatedAt = 0\<rparr>) \<and>
   fst (tryAcquire 129 30 (\<lparr>id' = 1, ownerKey = ''app-1'', desiredState = ''Running'',
       actualPhase = ''Creating'', lockedAt = Some 100, message = None,
       createdAt = 0, updatedAt = 0\<rparr> :: (string, string) resource)) = Denied \<and>
   fst (tryAcquire 130 30 (\<lparr>id' = 1, ownerKey = ''app-1'', desiredState = ''Running'',
       actualPhase = ''Creating'', lockedAt = Some 100, message = None,
       createdAt = 0, updatedAt = 0\<rparr> :: (string, string) resource)) \<noteq> Denied"
proof -
  let ?r = "\<lparr>id' = 1, ownerKey = ''app-1'', desiredState = ''Running'',
       actualPhase = ''Creating'', lockedAt = None, message = None,
       createdAt = 0, updatedAt = 0\<rparr> :: (string, string) resource"
  let ?r1 = "\<lparr>id' = 1, ownerKey = ''app-1'', desiredState = ''Running'',
       actualPhase = ''Creating'', lockedAt = Some 100, message = None,
       createdAt = 0, updatedAt = 0\<rparr> :: (string, string) resource"
  have a: "tryAcquire 100 30 ?r = (LeaseToken 100, ?r1)"
    by (simp add: tryAcquire_def isExpired_def)
  from lease_claimable_from_expiry_only [OF a, of 129]
       lease_claimable_from_expiry_only [OF a, of 130] a
  show ?thesis by simp
qed

subsection \<open>Mutual exclusion\<close>

lemma expired_no_holder:
  assumes "leaseInv d s" and "isExpired d (documents s i) (clock s)"
  shows "\<not> holdsLease d s w i"
proof
  assume h: "holdsLease d s w i"
  with assms(1) have "lockedAt (documents s i) = tokens s w i"
    by (simp add: leaseInv_def)
  with h assms(2) show False
    by (auto simp: holdsLease_def isExpired_def split: option.splits)
qed

lemma leaseInv_Tick:
  assumes inv: "leaseInv d s"
  shows "leaseInv d (step d (Tick n) s)"
proof -
  define s' where "s' = step d (Tick n) s"
  have tok: "tokens s' = tokens s" and doc: "documents s' = documents s"
    and clk: "clock s' = clock s + int n"
    by (simp_all add: s'_def)
  have old: "holdsLease d s' w i \<Longrightarrow> holdsLease d s w i" for w i
    by (auto simp: holdsLease_def tok clk split: option.splits)
  have "leaseInv d s'"
    unfolding leaseInv_def
  proof (intro allI impI)
    fix w i
    assume "holdsLease d s' w i"
    then have "holdsLease d s w i" by (rule old)
    with inv have "lockedAt (documents s i) = tokens s w i"
      and "\<forall>w'. holdsLease d s w' i \<longrightarrow> w' = w"
      by (simp_all add: leaseInv_def)
    with old show "lockedAt (documents s' i) = tokens s' w i \<and>
        (\<forall>w'. holdsLease d s' w' i \<longrightarrow> w' = w)"
      by (auto simp: tok doc)
  qed
  then show ?thesis by (simp only: s'_def)
qed

lemma leaseInv_Acquire:
  assumes inv: "leaseInv d s"
  shows "leaseInv d (step d (Acquire w i) s)"
proof (cases "isExpired d (documents s i) (clock s)")
  case False
  with inv show ?thesis by (simp add: tryAcquire_def)
next
  case True
  have none: "\<not> holdsLease d s w' i" for w'
    using inv True by (rule expired_no_holder)
  define s' where "s' = step d (Acquire w i) s"
  have tok: "tokens s' = (tokens s)(w := (tokens s w)(i \<mapsto> clock s))"
    and doc: "documents s' = (documents s)(i := (documents s i)\<lparr>lockedAt := Some (clock s)\<rparr>)"
    and clk: "clock s' = clock s"
    using True by (simp_all add: s'_def tryAcquire_def)
  have other: "holdsLease d s' w' j \<Longrightarrow> j \<noteq> i \<Longrightarrow> holdsLease d s w' j" for w' j
    by (auto simp: holdsLease_def tok clk split: option.splits if_splits)
  have same: "holdsLease d s' w' i \<Longrightarrow> w' = w" for w'
    using none [of w']
    by (auto simp: holdsLease_def tok clk split: option.splits if_splits)
  have "leaseInv d s'"
    unfolding leaseInv_def
  proof (intro allI impI)
    fix w' j
    assume h: "holdsLease d s' w' j"
    show "lockedAt (documents s' j) = tokens s' w' j \<and>
        (\<forall>w''. holdsLease d s' w'' j \<longrightarrow> w'' = w')"
    proof (cases "j = i")
      case True
      with h same have "w' = w" by blast
      with True same show ?thesis by (auto simp: tok doc)
    next
      case False
      with h have "holdsLease d s w' j" by (simp add: other)
      with inv have "lockedAt (documents s j) = tokens s w' j"
        and "\<forall>w''. holdsLease d s w'' j \<longrightarrow> w'' = w'"
        by (simp_all add: leaseInv_def)
      with False other show ?thesis by (auto simp: tok doc)
    qed
  qed
  then show ?thesis by (simp only: s'_def)
qed

lemma leaseInv_Release:
  assumes inv: "leaseInv d s"
  shows "leaseInv d (step d (Release w i) s)"
proof (cases "tokens s w i")
  case None
  with inv show ?thesis by simp
next
  case (Some t)
  define s' where "s' = step d (Release w i) s"
  have tok: "tokens s' = (tokens s)(w := (tokens s w)(i := None))"
    and doc: "documents s' = (documents s)(i := release t (documents s i))"
    and clk: "clock s' = clock s"
    using Some by (simp_all add: s'_def)
  have old: "holdsLease d s' w' j \<Longrightarrow> holdsLease d s w' j \<and> (j = i \<longrightarrow> w' \<noteq> w)" for w' j
    by (auto simp: holdsLease_def tok clk split: option.splits if_splits)
  have "leaseInv d s'"
    unfolding leaseInv_def
  proof (intro allI impI)
    fix w' j
    assume h: "holdsLease d s' w' j"
    then have h0: "holdsLease d s w' j" and ne: "j = i \<longrightarrow> w' \<noteq> w"
      using old by blast+
    from inv h0 have l: "lockedAt (documents s j) = tokens s w' j"
      and u: "\<forall>w''. holdsLease d s w'' j \<longrightarrow> w'' = w'"
      by (simp_all add: leaseInv_def)
    have keep: "lockedAt (documents s' j) = lockedAt (documents s j)"
    proof (cases "j = i \<and> lockedAt (documents s i) = Some t")
      case False
      then show ?thesis by (auto simp: doc release_def)
    next
      case True
      with l have "tokens s w' i = Some t" by simp
      with h0 True Some have "holdsLease d s w i"
        by (auto simp: holdsLease_def split: option.splits)
      with u True have "w = w'" by blast
      with ne True show ?thesis by simp
    qed
    have "tokens s' w' j = tokens s w' j"
      using ne by (auto simp: tok)
    with keep l u old show "lockedAt (documents s' j) = tokens s' w' j \<and>
        (\<forall>w''. holdsLease d s' w'' j \<longrightarrow> w'' = w')"
      by auto
  qed
  then show ?thesis by (simp only: s'_def)
qed

lemma leaseInv_step: "leaseInv d s \<Longrightarrow> leaseInv d (step d e s)"
  by (cases e) (simp_all only: leaseInv_Tick leaseInv_Acquire leaseInv_Release)

lemma leaseInv_run: "leaseInv d s \<Longrightarrow> leaseInv d (run d evs s)"
  by (induction evs arbitrary: s) (simp_all add: leaseInv_step del: step.simps)

lemma leaseInv_initial: "tokens s = (\<lambda>w i. None) \<Longrightarrow> leaseInv d s"
  by (simp add: leaseInv_def holdsLease_def)

text \<open>
  C1: whatever the workers do and however time passes, at every instant at most one
  worker holds a valid (non-expired) lease on a given record. The workers start with no
  lease, every call of \<^verbatim>\<open>tryAcquire\<close> passes the configured lease duration, and a
  worker holds a valid lease while it has the token of a lease that started less than
  the lease duration ago. Two leases granted on one record are therefore never valid at
  the same time.
\<close>

theorem at_most_one_valid_lease:
  assumes "tokens s0 = (\<lambda>w i. None)"
    and "holdsLease d (run d evs s0) w1 i"
    and "holdsLease d (run d evs s0) w2 i"
  shows "w1 = w2"
proof -
  have "leaseInv d (run d evs s0)"
    using assms(1) by (intro leaseInv_run leaseInv_initial)
  with assms(2,3) show ?thesis
    by (simp add: leaseInv_def)
qed


theorem at_most_one_valid_lease_witness:
  "holdsLease 10
     (run 10 [Acquire 1 7, Tick 3, Acquire 2 7, Tick 2]
        \<lparr>clock = 0,
         documents = (\<lambda>i. \<lparr>id' = i, ownerKey = ''app-1'', desiredState = ''Running'',
            actualPhase = ''Creating'', lockedAt = None, message = None,
            createdAt = 0, updatedAt = 0\<rparr>),
         tokens = (\<lambda>w i. None)\<rparr>) 1 7 \<and>
   \<not> holdsLease 10
     (run 10 [Acquire 1 7, Tick 3, Acquire 2 7, Tick 2]
        \<lparr>clock = 0,
         documents = (\<lambda>i. \<lparr>id' = i, ownerKey = ''app-1'', desiredState = ''Running'',
            actualPhase = ''Creating'', lockedAt = None, message = None,
            createdAt = 0, updatedAt = 0\<rparr>),
         tokens = (\<lambda>w i. None)\<rparr>) 2 7"
proof -
  let ?s0 = "\<lparr>clock = 0,
         documents = (\<lambda>i. \<lparr>id' = i, ownerKey = ''app-1'', desiredState = ''Running'',
            actualPhase = ''Creating'', lockedAt = None, message = None,
            createdAt = 0, updatedAt = 0\<rparr>),
         tokens = (\<lambda>w i. None)\<rparr> :: (string, string) world"
  let ?evs = "[Acquire 1 7, Tick 3, Acquire 2 7, Tick 2]"
  have t: "tokens ?s0 = (\<lambda>w i. None)" by simp
  have h1: "holdsLease 10 (run 10 ?evs ?s0) 1 7"
    by (simp add: holdsLease_def tryAcquire_def isExpired_def)
  have "\<not> holdsLease 10 (run 10 ?evs ?s0) 2 7"
  proof
    assume h2: "holdsLease 10 (run 10 ?evs ?s0) 2 7"
    have "(1::nat) = 2" by (rule at_most_one_valid_lease [OF t h1 h2])
    then show False by simp
  qed
  with h1 show ?thesis by simp
qed

section \<open>Properties of the system-server process\<close>

lemma deliver_installed:
  "running p \<Longrightarrow>
   deliver installed ev p =
     p\<lparr>logged := logged p @ linesOf [ev], routed := routed p @ requestsOf [ev]\<rparr>"
  by (cases ev)
     (simp_all add: installed_def raiseUncaught_def callAll_def logger_error_def
        logger_info_def logger_trace_def serve_def requestsOf_def linesOf_def)

lemma serverLife_installed:
  "running p \<Longrightarrow>
   serverLife installed evs p =
     p\<lparr>logged := logged p @ linesOf evs, routed := routed p @ requestsOf evs\<rparr>"
proof (induction evs arbitrary: p)
  case Nil
  then show ?case by (simp add: serverLife_def requestsOf_def linesOf_def)
next
  case (Cons ev evs)
  define q where "q = p\<lparr>logged := logged p @ linesOf [ev], routed := routed p @ requestsOf [ev]\<rparr>"
  have d: "deliver installed ev p = q"
    unfolding q_def using Cons.prems by (rule deliver_installed)
  have rq: "running q" using Cons.prems by (simp add: q_def)
  have s: "serverLife installed (ev # evs) p = serverLife installed evs q"
    using d by (simp add: serverLife_def del: deliver.simps)
  have l: "linesOf (ev # evs) = linesOf [ev] @ linesOf evs"
    and r: "requestsOf (ev # evs) = requestsOf [ev] @ requestsOf evs"
    by (simp_all add: linesOf_def requestsOf_def)
  show ?case
    unfolding s Cons.IH [OF rq] l r by (simp add: q_def)
qed

text \<open>
  C9: with the two listeners of \<^verbatim>\<open>index.ts\<close> installed, whatever unhandled rejections
  and uncaught exceptions occur while the server runs, the listeners only log the error
  and the process never exits. Each listener leaves the whole process state as it was
  but for one appended error line that carries the reason and the promise, or the
  exception. After any sequence of events the process still runs with no exit code, its
  log is the start-up line followed by exactly the events' lines in order, and every
  request whose body is accepted, before or after the errors, has reached the router.
\<close>

theorem process_survives_errors:
  "deliver installed (UnhandledRejection reason promise) (serverLife installed evs (started port)) =
     (serverLife installed evs (started port))
       \<lparr>logged := logged (serverLife installed evs (started port)) @
          [(ERROR, [''Caught unhandledRejection:'', reason, promise])]\<rparr> \<and>
   deliver installed (UncaughtException err) (serverLife installed evs (started port)) =
     (serverLife installed evs (started port))
       \<lparr>logged := logged (serverLife installed evs (started port)) @
          [(ERROR, [''Caught uncaughtException:'', err])]\<rparr> \<and>
   running (serverLife installed evs (started port)) \<and>
   exitCode (serverLife installed evs (started port)) = None \<and>
   logged (serverLife installed evs (started port)) =
     (INFO, [''listened on '' @ port]) # linesOf evs \<and>
   routed (serverLife installed evs (started port)) = requestsOf evs"
proof -
  define S where "S = serverLife installed evs (started port)"
  have r: "running (started port)" by (simp add: started_def)
  have s: "S = (started port)\<lparr>logged := logged (started port) @ linesOf evs,
                                routed := routed (started port) @ requestsOf evs\<rparr>"
    unfolding S_def using r by (rule serverLife_installed)
  have rs: "running S"
    unfolding s using r by simp
  have state: "running S \<and> exitCode S = None \<and>
      logged S = (INFO, [''listened on '' @ port]) # linesOf evs \<and> routed S = requestsOf evs"
    unfolding s by (simp add: started_def)
  have rejection: "deliver installed (UnhandledRejection reason promise) S =
      S\<lparr>logged := logged S @ [(ERROR, [''Caught unhandledRejection:'', reason, promise])]\<rparr>"
    using deliver_installed [OF rs, of "UnhandledRejection reason promise"]
    by (simp add: linesOf_def requestsOf_def del: deliver.simps)
  have exception: "deliver installed (UncaughtException err) S =
      S\<lparr>logged := logged S @ [(ERROR, [''Caught uncaughtException:'', err])]\<rparr>"
    using deliver_installed [OF rs, of "UncaughtException err"]
    by (simp add: linesOf_def requestsOf_def del: deliver.simps)
  from rejection exception state show ?thesis
    unfolding S_def by blast
qed

text \<open>Without the listeners the same errors end the process, and later requests are
  not served.\<close>

lemma process_without_listeners_exits:
  "serverLife noListeners [UncaughtException e, Request req] (started port) =
     (started port)\<lparr>running := False, exitCode := Some 1\<rparr>"
  "serverLife noListeners [UnhandledRejection e pr, Request req] (started port) =
     (started port)\<lparr>running := False, exitCode := Some 1\<rparr>"
  by (simp_all add: serverLife_def noListeners_def started_def raiseUncaught_def)

section \<open>Properties of the save handler\<close>

text \<open>
  C10: when the edited text fails to parse as JSON, or parses to a value with zero keys
  (the empty object among them), \<^verbatim>\<open>handleData\<close> shows one error message and does not
  invoke the update mutation, so the stored documents are unchanged.
\<close>

theorem handleData_rejects_unparsable_or_empty:
  assumes "(\<exists>e. JSON_parse E record = Inl e) \<or>
           (\<exists>v. JSON_parse E record = Inr v \<and> keyCount v = Inr 0)"
  shows "mutateCalls (handleData E record st) = mutateCalls st \<and>
         stored (handleData E record st) = stored st \<and>
         (\<exists>msg. shownErrors (handleData E record st) = shownErrors st @ [msg])"
  using assms
  by (auto simp: handleData_def showError_def split: sum.splits)

theorem handleData_rejects_unparsable_or_empty_witness:
  "JSON_parse
     \<lparr>JSON_parse = (\<lambda>s. if s = ''{}'' then Inr (JObject [])
                         else Inl ''SyntaxError: Unexpected end of JSON input''),
      mutateAsync = (\<lambda>v d. Inr (v # d)), t' = (\<lambda>k. k)\<rparr> ''{}'' = Inr (JObject []) \<and>
   keyCount (JObject [] :: int jsvalue) = Inr 0 \<and>
   handleData
     \<lparr>JSON_parse = (\<lambda>s. if s = ''{}'' then Inr (JObject [])
                         else Inl ''SyntaxError: Unexpected end of JSON input''),
      mutateAsync = (\<lambda>v d. Inr (v # d)), t' = (\<lambda>k. k)\<rparr> ''{}''
     \<lparr>shownErrors = [], mutateCalls = [], stored = [JObject [(''_id'', JString ''1'')]]\<rparr> =
     \<lparr>shownErrors = [''DataEntry.CreateError''], mutateCalls = [],
      stored = [JObject [(''_id'', JString ''1'') :: string \<times> int jsvalue]]\<rparr> \<and>
   handleData
     \<lparr>JSON_parse = (\<lambda>s. if s = ''{}'' then Inr (JObject [])
                         else Inl ''SyntaxError: Unexpected end of JSON input''),
      mutateAsync = (\<lambda>v d. Inr (v # d)), t' = (\<lambda>k. k)\<rparr> ''{''
     \<lparr>shownErrors = [], mutateCalls = [], stored = [JObject [(''_id'', JString ''1'')]]\<rparr> =
     \<lparr>shownErrors = [''SyntaxError: Unexpected end of JSON input''], mutateCalls = [],
      stored = [JObject [(''_id'', JString ''1'') :: string \<times> int jsvalue]]\<rparr>"
proof -
  let ?E = "\<lparr>JSON_parse = (\<lambda>s. if s = ''{}'' then Inr (JObject [])
                         else Inl ''SyntaxError: Unexpected end of JSON input''),
      mutateAsync = (\<lambda>v d. Inr (v # d)), t' = (\<lambda>k. k)\<rparr> :: (int, int jsvalue list) env"
  let ?st = "\<lparr>shownErrors = [], mutateCalls = [],
      stored = [JObject [(''_id'', JString ''1'')]]\<rparr> :: (int, int jsvalue list) panel"
  have p: "JSON_parse ?E ''{}'' = Inr (JObject [])" by simp
  have k: "keyCount (JObject [] :: int jsvalue) = Inr 0" by (simp add: keyCount_def)
  have h: "(\<exists>e. JSON_parse ?E ''{}'' = Inl e) \<or>
           (\<exists>v. JSON_parse ?E ''{}'' = Inr v \<and> keyCount v = Inr 0)"
    using p k by simp
  have "mutateCalls (handleData ?E ''{}'' ?st) = mutateCalls ?st"
    using handleData_rejects_unparsable_or_empty [OF h, of ?st] by blast
  moreover have "handleData ?E ''{}'' ?st =
      \<lparr>shownErrors = [''DataEntry.CreateError''], mutateCalls = [],
       stored = [JObject [(''_id'', JString ''1'')]]\<rparr>"
    by (simp add: handleData_def keyCount_def showError_def)
  moreover have "handleData ?E ''{'' ?st =
      \<lparr>shownErrors = [''SyntaxError: Unexpected end of JSON input''], mutateCalls = [],
       stored = [JObject [(''_id'', JString ''1'')]]\<rparr>"
    by (simp add: handleData_def keyCount_def showError_def)
  ultimately show ?thesis using p k by simp
qed

text \<open>A value with at least one key does reach the mutation.\<close>

lemma handleData_submits_nonempty:
  assumes "JSON_parse E record = Inr v" and "keyCount v = Inr (Suc n)"
  shows "mutateCalls (handleData E record st) = mutateCalls st @ [v]"
  using assms by (simp add: handleData_def showError_def split: sum.splits)


end
